theory Spec2Isabelle
  imports Complex_Main
begin

section \<open>The image mosaic composer \<^verbatim>\<open>img_boxer.py\<close>\<close>

text \<open>
  A shallow embedding of the five functions of \<^verbatim>\<open>img_boxer.py\<close> that make up the
  mosaic core: \<^verbatim>\<open>parse_aspect_ratio\<close>, \<^verbatim>\<open>resize_with_crop\<close>,
  \<^verbatim>\<open>resize_with_padding\<close>, \<^verbatim>\<open>calculate_grid_size\<close> and
  \<^verbatim>\<open>create_image_mosaic\<close>.

  Numbers. Python's \<^verbatim>\<open>int\<close> is \<^typ>\<open>int\<close>. Python's \<^verbatim>\<open>float\<close> is modelled by
  \<^typ>\<open>real\<close> with exact arithmetic: the rounding of binary64, its infinities and NaN are
  outside the model, so every statement below is about the arithmetic the program
  writes down, computed without rounding error.

  Exceptions are values of the type \<open>error\<close>; a function that can raise returns
  \<open>error + 'a\<close> with \<open>Inl\<close> for the exception.
\<close>

subsection \<open>Exceptions and numeric conversions\<close>

datatype error =
    ValueError string
  | ZeroDivisionError
  | ArgumentTypeError string

text \<open>\<^verbatim>\<open>int(x)\<close> on a float truncates towards zero.\<close>

definition py_int :: "real \<Rightarrow> int" where
  "py_int x = (if 0 \<le> x then \<lfloor>x\<rfloor> else \<lceil>x\<rceil>)"

text \<open>
  The least \<open>k' \<ge> k\<close> with \<open>n \<le> k' * k'\<close>, by linear search: from \<open>k = 0\<close> it is
  \<^verbatim>\<open>math.ceil(math.sqrt(n))\<close> on the naturals (lemma \<open>ceiling_sqrt_search\<close> below),
  and it gives \<open>calculate_grid_size\<close> its code equation.
\<close>

function sqrt_search :: "nat \<Rightarrow> nat \<Rightarrow> nat" where
  "sqrt_search k n = (if n \<le> k * k then k else sqrt_search (Suc k) n)"
  by pat_completeness auto
termination
proof (relation "measure (\<lambda>(k, n). n - k)")
  show "wf (measure (\<lambda>(k, n). n - k))" by simp
next
  fix k n :: nat
  assume "\<not> n \<le> k * k"
  then have "k * k < n" by simp
  moreover have "k \<le> k * k" by (cases k) simp_all
  ultimately have "k < n" by linarith
  then show "((Suc k, n), (k, n)) \<in> measure (\<lambda>(k, n). n - k)" by simp
qed

subsection \<open>RatioParser: \<^verbatim>\<open>parse_aspect_ratio\<close>\<close>

text \<open>
  \<^verbatim>\<open>s.split(sep)\<close> for a one-character separator: the pieces between the occurrences
  of \<open>sep\<close>, always at least one piece.
\<close>

fun str_split :: "char \<Rightarrow> string \<Rightarrow> string list" where
  "str_split sep [] = [[]]"
| "str_split sep (c # cs) =
     (if c = sep then [] # str_split sep cs
      else (case str_split sep cs of
              [] \<Rightarrow> [[c]]
            | p # ps \<Rightarrow> (c # p) # ps))"

text \<open>
  \<^verbatim>\<open>
  def parse_aspect_ratio(ratio_str):
      try:
          width, height = map(float, ratio_str.split(':'))
          return width / height
      except ValueError:
          raise argparse.ArgumentTypeError("Aspect ratio must be in format W:H (e.g., 16:9)")
  \<close>
  Python's built-in \<^verbatim>\<open>float\<close> on strings is the parameter \<open>float\<close>: \<open>None\<close> is its
  \<^verbatim>\<open>ValueError\<close>. Unpacking anything but two values raises \<^verbatim>\<open>ValueError\<close> as well, so
  every shape other than two parsed numbers ends in the \<^verbatim>\<open>except\<close> branch. The
  division is outside what the handler catches.
\<close>

definition parse_aspect_ratio :: "(string \<Rightarrow> real option) \<Rightarrow> string \<Rightarrow> error + real" where
  "parse_aspect_ratio float ratio_str =
     (case map float (str_split CHR '':'' ratio_str) of
        [Some width, Some height] \<Rightarrow>
          if height = 0 then Inl ZeroDivisionError else Inr (width / height)
      | _ \<Rightarrow> Inl (ArgumentTypeError ''Aspect ratio must be in format W:H (e.g., 16:9)''))"

text \<open>
  An instance of \<^verbatim>\<open>float\<close> for running the parser: the value of a non-empty string of
  decimal digits, \<open>None\<close> on every other string.
\<close>

definition digit_val :: "char \<Rightarrow> nat option" where
  "digit_val c =
     (let v = (of_char c :: nat) in
      if of_char CHR ''0'' \<le> v \<and> v \<le> of_char CHR ''9'' then Some (v - of_char CHR ''0'')
      else None)"

fun digits_val :: "nat \<Rightarrow> string \<Rightarrow> nat option" where
  "digits_val acc [] = Some acc"
| "digits_val acc (c # cs) =
     (case digit_val c of None \<Rightarrow> None | Some d \<Rightarrow> digits_val (10 * acc + d) cs)"

definition float_of_digits :: "string \<Rightarrow> real option" where
  "float_of_digits s =
     (if s = [] then None else map_option real (digits_val 0 s))"

subsection \<open>Images and the Pillow operations the core calls\<close>

type_synonym rgb = "nat \<times> nat \<times> nat"

definition black :: rgb where
  "black = (0, 0, 0)"

text \<open>
  An image is its size and its pixels; \<open>pixel im x y\<close> is read for
  \<open>0 \<le> x < width im\<close> and \<open>0 \<le> y < height im\<close> only.
\<close>

record image =
  width :: int
  height :: int
  pixel :: "int \<Rightarrow> int \<Rightarrow> rgb"


text \<open>\<^verbatim>\<open>Image.new('RGB', size, color)\<close>: Pillow refuses a negative size.\<close>

definition Image_new :: "int \<times> int \<Rightarrow> rgb \<Rightarrow> error + image" where
  "Image_new sz color =
     (case sz of (w, h) \<Rightarrow>
        if w < 0 \<or> h < 0 then Inl (ValueError ''Width and height must be >= 0'')
        else Inr \<lparr>width = w, height = h, pixel = (\<lambda>x y. color)\<rparr>)"

text \<open>
  \<^verbatim>\<open>image.crop((left, upper, right, lower))\<close>: the box as a new image; Pillow refuses a
  box whose right edge is left of its left edge (or lower above upper), and fills what
  lies outside the source with zeros. (The texts of Pillow's messages are paraphrased;
  no statement depends on them.)
\<close>

definition crop :: "image \<Rightarrow> int \<times> int \<times> int \<times> int \<Rightarrow> error + image" where
  "crop im box =
     (case box of (left, upper, right, lower) \<Rightarrow>
        if right < left then Inl (ValueError ''Coordinate right is less than left'')
        else if lower < upper then Inl (ValueError ''Coordinate lower is less than upper'')
        else Inr \<lparr>width = right - left, height = lower - upper,
                  pixel = (\<lambda>x y.
                    if 0 \<le> x + left \<and> x + left < width im \<and> 0 \<le> y + upper \<and> y + upper < height im
                    then pixel im (x + left) (y + upper) else black)\<rparr>)"

text \<open>
  \<^verbatim>\<open>dst.paste(src, (x0, y0))\<close> overwrites the region of \<open>dst\<close> that \<open>src\<close> covers. Python
  mutates \<open>dst\<close>; the model returns the updated image.
\<close>

definition paste :: "image \<Rightarrow> image \<Rightarrow> int \<times> int \<Rightarrow> image" where
  "paste dst src pos =
     (case pos of (x0, y0) \<Rightarrow>
        dst\<lparr>pixel := (\<lambda>x y.
          if x0 \<le> x \<and> x < x0 + width src \<and> y0 \<le> y \<and> y < y0 + height src
          then pixel src (x - x0) (y - y0) else pixel dst x y)\<rparr>)"

text \<open>
  \<^verbatim>\<open>image.resize(size, Image.Resampling.LANCZOS)\<close> is a parameter of the model, of this
  type: the Lanczos filter and the conditions under which Pillow refuses a size are the
  library's.
\<close>

type_synonym resampler = "image \<Rightarrow> int \<times> int \<Rightarrow> error + image"



subsection \<open>CellReconciler: \<^verbatim>\<open>resize_with_crop\<close> and \<^verbatim>\<open>resize_with_padding\<close>\<close>

text \<open>
  \<^verbatim>\<open>
  def resize_with_crop(image, target_ratio):
      width, height = image.size
      current_ratio = width / height
      if current_ratio > target_ratio:
          new_width = int(height * target_ratio)
          left = (width - new_width) // 2
          return image.crop((left, 0, left + new_width, height))
      elif current_ratio < target_ratio:
          new_height = int(width / target_ratio)
          top = (height - new_height) // 2
          return image.crop((0, top, width, top + new_height))
      return image
  \<close>
  Both divisions raise \<^verbatim>\<open>ZeroDivisionError\<close> on a zero divisor.
\<close>

definition resize_with_crop :: "image \<Rightarrow> real \<Rightarrow> error + image" where
  "resize_with_crop im target_ratio =
     (let w = width im; h = height im in
      if h = 0 then Inl ZeroDivisionError
      else
        let current_ratio = real_of_int w / real_of_int h in
        if current_ratio > target_ratio then
          (let new_width = py_int (real_of_int h * target_ratio);
               left = (w - new_width) div 2
           in crop im (left, 0, left + new_width, h))
        else if current_ratio < target_ratio then
          (if target_ratio = 0 then Inl ZeroDivisionError
           else
             let new_height = py_int (real_of_int w / target_ratio);
                 top = (h - new_height) div 2
             in crop im (0, top, w, top + new_height))
        else Inr im)"

text \<open>
  \<^verbatim>\<open>
  def resize_with_padding(image, target_ratio):
      width, height = image.size
      current_ratio = width / height
      if current_ratio > target_ratio:
          new_height = int(width / target_ratio)
          new_size = (width, new_height)
          new_image = Image.new('RGB', new_size, (0, 0, 0))
          paste_y = (new_height - height) // 2
          new_image.paste(image, (0, paste_y))
          return new_image
      elif current_ratio < target_ratio:
          new_width = int(height * target_ratio)
          new_size = (new_width, height)
          new_image = Image.new('RGB', new_size, (0, 0, 0))
          paste_x = (new_width - width) // 2
          new_image.paste(image, (paste_x, 0))
          return new_image
      return image
  \<close>
\<close>

definition resize_with_padding :: "image \<Rightarrow> real \<Rightarrow> error + image" where
  "resize_with_padding im target_ratio =
     (let w = width im; h = height im in
      if h = 0 then Inl ZeroDivisionError
      else
        let current_ratio = real_of_int w / real_of_int h in
        if current_ratio > target_ratio then
          (if target_ratio = 0 then Inl ZeroDivisionError
           else
             let new_height = py_int (real_of_int w / target_ratio) in
             case Image_new (w, new_height) black of
               Inl e \<Rightarrow> Inl e
             | Inr new_image \<Rightarrow>
                 let paste_y = (new_height - h) div 2
                 in Inr (paste new_image im (0, paste_y)))
        else if current_ratio < target_ratio then
          (let new_width = py_int (real_of_int h * target_ratio) in
           case Image_new (new_width, h) black of
             Inl e \<Rightarrow> Inl e
           | Inr new_image \<Rightarrow>
               let paste_x = (new_width - w) div 2
               in Inr (paste new_image im (paste_x, 0)))
        else Inr im)"

subsection \<open>GridPlanner: \<^verbatim>\<open>calculate_grid_size\<close>\<close>

text \<open>
  \<^verbatim>\<open>
  def calculate_grid_size(n):
      if n <= 1:
          return (1, 1)
      cols = math.ceil(math.sqrt(n))
      rows = math.ceil(n / cols)
      return (rows, cols)
  \<close>
\<close>

definition calculate_grid_size :: "int \<Rightarrow> int \<times> int" where
  "calculate_grid_size n =
     (if n \<le> 1 then (1, 1)
      else
        let cols = \<lceil>sqrt (real_of_int n)\<rceil>;
            rows = \<lceil>real_of_int n / real_of_int cols\<rceil>
        in (rows, cols))"

subsection \<open>MosaicComposer: \<^verbatim>\<open>create_image_mosaic\<close>\<close>

definition BASE_HEIGHT :: int where
  "BASE_HEIGHT = 300"

text \<open>
  The body of the loop up to the exact-size image of one cell:
  \<^verbatim>\<open>
  if crop_mode:
      resized = resize_with_crop(img, cell_ratio)
  else:
      resized = resize_with_padding(img, cell_ratio)
  resized = resized.resize((cell_width, cell_height), Image.Resampling.LANCZOS)
  \<close>
\<close>

definition cell_image ::
  "resampler \<Rightarrow> bool \<Rightarrow> real \<Rightarrow> int \<Rightarrow> int \<Rightarrow> image \<Rightarrow> error + image" where
  "cell_image resize crop_mode cell_ratio cell_width cell_height img =
     (case (if crop_mode then resize_with_crop img cell_ratio
            else resize_with_padding img cell_ratio) of
        Inl e \<Rightarrow> Inl e
      | Inr resized \<Rightarrow> resize resized (cell_width, cell_height))"

text \<open>
  The loop \<^verbatim>\<open>for idx, img in enumerate(images)\<close>, from index \<open>idx\<close> on, with the
  canvas as the state:
  \<^verbatim>\<open>
  if idx >= rows * cols:
      break
  grid_row = idx // cols
  grid_col = idx % cols
  ...
  x = grid_col * cell_width
  y = grid_row * cell_height
  final_image.paste(resized, (x, y))
  \<close>
  An exception in the body leaves the loop and the function.
\<close>

fun place_images ::
  "resampler \<Rightarrow> bool \<Rightarrow> int \<Rightarrow> int \<Rightarrow> real \<Rightarrow> int \<Rightarrow> int \<Rightarrow> int \<Rightarrow> image list \<Rightarrow> image
     \<Rightarrow> error + image" where
  "place_images resize crop_mode rows cols cell_ratio cell_width cell_height idx [] final_image =
     Inr final_image"
| "place_images resize crop_mode rows cols cell_ratio cell_width cell_height idx (img # imgs) final_image =
     (if idx \<ge> rows * cols then Inr final_image
      else
        let grid_row = idx div cols;
            grid_col = idx mod cols
        in case cell_image resize crop_mode cell_ratio cell_width cell_height img of
             Inl e \<Rightarrow> Inl e
           | Inr resized \<Rightarrow>
               let x = grid_col * cell_width;
                   y = grid_row * cell_height
               in place_images resize crop_mode rows cols cell_ratio cell_width cell_height
                    (idx + 1) imgs (paste final_image resized (x, y)))"

text \<open>
  \<^verbatim>\<open>
  def create_image_mosaic(images, target_ratio, crop_mode=False):
      if not images:
          raise ValueError("No images provided")
      n_images = len(images)
      rows, cols = calculate_grid_size(n_images)
      cell_ratio = (target_ratio * rows) / cols
      BASE_HEIGHT = 300
      cell_height = BASE_HEIGHT
      cell_width = int(cell_height * cell_ratio)
      final_width = cell_width * cols
      final_height = cell_height * rows
      final_image = Image.new('RGB', (final_width, final_height), (0, 0, 0))
      for idx, img in enumerate(images): ...
      return final_image
  \<close>
\<close>

definition create_image_mosaic ::
  "resampler \<Rightarrow> image list \<Rightarrow> real \<Rightarrow> bool \<Rightarrow> error + image" where
  "create_image_mosaic resize images target_ratio crop_mode =
     (if images = [] then Inl (ValueError ''No images provided'')
      else
        let n_images = int (length images);
            (rows, cols) = calculate_grid_size n_images;
            cell_ratio = (target_ratio * real_of_int rows) / real_of_int cols;
            cell_height = BASE_HEIGHT;
            cell_width = py_int (real_of_int cell_height * cell_ratio);
            final_width = cell_width * cols;
            final_height = cell_height * rows
        in case Image_new (final_width, final_height) black of
             Inl e \<Rightarrow> Inl e
           | Inr final_image \<Rightarrow>
               place_images resize crop_mode rows cols cell_ratio cell_width cell_height
                 0 images final_image)"

subsection \<open>Vocabulary of the statements\<close>





section \<open>Properties\<close>

subsection \<open>The grid\<close>

lemma ceiling_sqrt_between:
  assumes "0 \<le> k" and "k * k < n" and "n \<le> (k + 1) * (k + 1)"
  shows "\<lceil>sqrt (real_of_int n)\<rceil> = k + 1"
proof (rule ceiling_unique)
  have "real_of_int (k * k) < real_of_int n"
    using assms(2) by linarith
  then have "(real_of_int k)\<^sup>2 < real_of_int n"
    by (simp add: power2_eq_square)
  then have "real_of_int k < sqrt (real_of_int n)"
    using assms(1) by (simp add: real_less_rsqrt)
  then show "real_of_int (k + 1) - 1 < sqrt (real_of_int n)"
    by simp
  have "real_of_int n \<le> real_of_int ((k + 1) * (k + 1))"
    using assms(3) by linarith
  then have "real_of_int n \<le> (real_of_int (k + 1))\<^sup>2"
    by (simp add: power2_eq_square)
  then show "sqrt (real_of_int n) \<le> real_of_int (k + 1)"
    using assms(1) by (simp add: real_le_lsqrt)
qed

lemma sqrt_search_spec:
  assumes "k = 0 \<or> (k - 1) * (k - 1) < n"
  shows "n \<le> sqrt_search k n * sqrt_search k n \<and>
         (sqrt_search k n = 0 \<or> (sqrt_search k n - 1) * (sqrt_search k n - 1) < n)"
  using assms
proof (induction k n rule: sqrt_search.induct)
  case (1 k n)
  show ?case
  proof (cases "n \<le> k * k")
    case True
    then have "sqrt_search k n = k" by simp
    with True "1.prems" show ?thesis by simp
  next
    case False
    then have eq: "sqrt_search k n = sqrt_search (Suc k) n" by simp
    from False have "Suc k = 0 \<or> (Suc k - 1) * (Suc k - 1) < n" by simp
    from "1.IH" [OF False this] show ?thesis unfolding eq .
  qed
qed

lemma ceiling_sqrt_search:
  assumes "0 < n"
  shows "\<lceil>sqrt (real_of_int n)\<rceil> = int (sqrt_search 0 (nat n))"
proof -
  define r where "r = sqrt_search 0 (nat n)"
  have s: "nat n \<le> r * r \<and> (r = 0 \<or> (r - 1) * (r - 1) < nat n)"
    unfolding r_def by (rule sqrt_search_spec) simp
  have "r \<noteq> 0"
  proof
    assume "r = 0"
    with s have "nat n \<le> 0" by simp
    with assms show False by simp
  qed
  then obtain k where k: "r = Suc k" by (cases r) auto
  have lo: "int k * int k < n"
  proof -
    from s k have "k * k < nat n" by simp
    then have "int (k * k) < int (nat n)" by (simp only: of_nat_less_iff)
    then show ?thesis using assms by simp
  qed
  have hi: "n \<le> (int k + 1) * (int k + 1)"
  proof -
    from s k have "nat n \<le> Suc k * Suc k" by simp
    then have "int (nat n) \<le> int (Suc k * Suc k)" by (simp only: of_nat_le_iff)
    then show ?thesis using assms by (simp add: algebra_simps)
  qed
  have "\<lceil>sqrt (real_of_int n)\<rceil> = int k + 1"
    by (rule ceiling_sqrt_between [OF _ lo hi]) simp
  then show ?thesis using k by (simp add: r_def)
qed

lemma calculate_grid_size_code [code]:
  "calculate_grid_size n =
     (if n \<le> 1 then (1, 1)
      else
        let cols = int (sqrt_search 0 (nat n));
            rows = \<lceil>real_of_int n / real_of_int cols\<rceil>
        in (rows, cols))"
  by (simp add: calculate_grid_size_def ceiling_sqrt_search)


text \<open>
  C2, as the code has it. \<open>calculate_grid_size\<close> returns the pair (rows, cols) with
  cols = ceil(sqrt n) and rows = ceil(n / cols): for 1, 4 and 5 images the grids are
  (1,1), (2,2) and (2,3), and for 10 images cols = ceil(sqrt 10) = 4 and
  rows = ceil(10 / 4) = 3, so the grid is (3,4).
\<close>

theorem calculate_grid_size_values:
  "calculate_grid_size 1 = (1, 1) \<and> calculate_grid_size 4 = (2, 2) \<and>
   calculate_grid_size 5 = (2, 3) \<and> calculate_grid_size 10 = (3, 4) \<and>
   \<lceil>sqrt (real_of_int 10)\<rceil> = 4 \<and> \<lceil>real_of_int 10 / real_of_int 4\<rceil> = 3"
proof -
  have "\<lceil>sqrt (real_of_int 10)\<rceil> = 3 + 1"
    by (rule ceiling_sqrt_between) simp_all
  then show ?thesis
    by (simp add: calculate_grid_size_code Let_def)
qed

text \<open>
  C2, as the spec lists it, fails at 10 images: the pair returned is not (4,3).
\<close>

theorem calculate_grid_size_10_counterexample:
  "calculate_grid_size 10 \<noteq> (4, 3)"
  by (simp add: calculate_grid_size_code Let_def)



subsection \<open>The ratio parser\<close>

text \<open>
  C3. A ratio string that splits at its one colon into two pieces, the first a number
  and the second a number equal to zero (as in \<^verbatim>\<open>"4:0"\<close>), makes
  \<open>parse_aspect_ratio\<close> raise \<^verbatim>\<open>ZeroDivisionError\<close>: the division is not covered by
  \<^verbatim>\<open>except ValueError\<close>, so the error is not the \<^verbatim>\<open>ArgumentTypeError\<close> that malformed
  and non-numeric text gets.
\<close>

theorem parse_aspect_ratio_zero_height:
  assumes "str_split CHR '':'' ratio_str = [w, h]"
    and "float w = Some x" and "float h = Some 0"
  shows "parse_aspect_ratio float ratio_str = Inl ZeroDivisionError"
  using assms by (simp add: parse_aspect_ratio_def)

lemma float_of_digits_4: "float_of_digits ''4'' = Some 4"
  by (simp add: float_of_digits_def digit_val_def)

lemma float_of_digits_0: "float_of_digits ''0'' = Some 0"
  by (simp add: float_of_digits_def digit_val_def)

theorem parse_aspect_ratio_zero_height_witness:
  "str_split CHR '':'' ''4:0'' = [''4'', ''0''] \<and>
   float_of_digits ''4'' = Some 4 \<and> float_of_digits ''0'' = Some 0 \<and>
   parse_aspect_ratio float_of_digits ''4:0'' = Inl ZeroDivisionError \<and>
   parse_aspect_ratio float_of_digits ''4:0'' \<noteq>
     Inl (ArgumentTypeError ''Aspect ratio must be in format W:H (e.g., 16:9)'')"
proof -
  have s: "str_split CHR '':'' ''4:0'' = [''4'', ''0'']" by simp
  from parse_aspect_ratio_zero_height [OF s float_of_digits_4 float_of_digits_0]
  show ?thesis using s float_of_digits_4 float_of_digits_0 by simp
qed

text \<open>
  The other paths of the parser, on the instance: a well-formed ratio, a non-numeric
  side and a wrong number of pieces.
\<close>

lemma parse_examples:
  "parse_aspect_ratio float_of_digits ''16:9'' = Inr (16 / 9)"
  "parse_aspect_ratio float_of_digits ''abc:9'' =
     Inl (ArgumentTypeError ''Aspect ratio must be in format W:H (e.g., 16:9)'')"
  "parse_aspect_ratio float_of_digits ''16:9:1'' =
     Inl (ArgumentTypeError ''Aspect ratio must be in format W:H (e.g., 16:9)'')"
  by (simp_all add: parse_aspect_ratio_def float_of_digits_def digit_val_def)

subsection \<open>Cropping and padding one image\<close>




















subsection \<open>The mosaic\<close>

text \<open>
  C8. On an empty list of images \<open>create_image_mosaic\<close> raises
  \<^verbatim>\<open>ValueError("No images provided")\<close>, whatever the target ratio, the policy flag and
  the resampler; no canvas is returned.
\<close>

theorem create_image_mosaic_empty:
  "create_image_mosaic rs [] target_ratio crop_mode = Inl (ValueError ''No images provided'')"
  by (simp add: create_image_mosaic_def)

lemma paste_size [simp]:
  "width (paste dst src pos) = width dst" "height (paste dst src pos) = height dst"
  by (simp_all add: paste_def split: prod.splits)























end
